theory Spec2Isabelle
  imports Main "HOL-Library.Word" "HOL-Library.Monad_Syntax"
begin

section \<open>Data model (shared schema)\<close>

text \<open>
  Timestamps are JavaScript \<open>Date\<close> values, compared through their millisecond count.
  Every \<open>new Date()\<close> of the source is an explicit argument of the model.
\<close>

type_synonym timestamp = int

text \<open>
  A row of the \<open>users\<close> table. The profile columns (email, username, password, first and
  last name, avatar and background URL, bio) are opaque strings that none of the modelled
  operations reads or writes; they are left out of the record.
\<close>

record user =
  u_id :: string
  u_isAdmin :: bool
  u_role :: string
  u_badge :: "string option"
  u_isBanned :: bool
  u_bannedUntil :: "timestamp option"
  u_banReason :: "string option"
  u_createdAt :: "timestamp option"
  u_updatedAt :: "timestamp option"

text \<open>A row of the \<open>wiki_entries\<close> table; a nullable column is an \<open>option\<close>.\<close>

record wiki_entry =
  e_id :: string
  e_userId :: string
  e_title :: string
  e_description :: string
  e_imageUrl :: "string option"
  e_status :: string
  e_verification :: "string option"
  e_isSpecial :: bool
  e_specialAccessToken :: "string option"
  e_createdAt :: "timestamp option"
  e_updatedAt :: "timestamp option"

text \<open>A row of the \<open>likes\<close> table.\<close>

record like =
  l_id :: string
  l_entryId :: string
  l_userId :: string
  l_createdAt :: "timestamp option"

text \<open>
  The database: each table is the list of its rows. The tables of comments, content reports,
  gallery images and sessions take no part in the operations modelled below.
\<close>

record store =
  users :: "user list"
  wikiEntries :: "wiki_entry list"
  likes :: "like list"

section \<open>Storage layer: users and bans (server/storage.ts)\<close>

text \<open>\<open>const [user] = await db.select().from(users).where(eq(users.id, id))\<close>: the first
  matching row, or \<open>undefined\<close>.\<close>

definition getUser :: "store \<Rightarrow> string \<Rightarrow> user option" where
  "getUser s i = find (\<lambda>u. u_id u = i) (users s)"

definition banUser ::
  "timestamp \<Rightarrow> string \<Rightarrow> string \<Rightarrow> timestamp option \<Rightarrow> store \<Rightarrow> store \<times> user option" where
  "banUser now userId reason until s =
     (let s' = s\<lparr>users := map (\<lambda>u. if u_id u = userId
                  then u\<lparr>u_isBanned := True, u_banReason := Some reason,
                          u_bannedUntil := until, u_updatedAt := Some now\<rparr>
                  else u) (users s)\<rparr>
      in (s', getUser s' userId))"

definition unbanUser :: "timestamp \<Rightarrow> string \<Rightarrow> store \<Rightarrow> store \<times> user option" where
  "unbanUser now userId s =
     (let s' = s\<lparr>users := map (\<lambda>u. if u_id u = userId
                  then u\<lparr>u_isBanned := False, u_banReason := None,
                          u_bannedUntil := None, u_updatedAt := Some now\<rparr>
                  else u) (users s)\<rparr>
      in (s', getUser s' userId))"

text \<open>
  \<open>checkUserBanned\<close>: \<open>now\<close> is the \<open>new Date()\<close> of the comparison, \<open>now'\<close> the one
  \<open>unbanUser\<close> writes into \<open>updatedAt\<close>. A \<open>Date\<close> object is always truthy, so
  \<open>user.bannedUntil && ...\<close> only tests for null.
\<close>

definition checkUserBanned ::
  "timestamp \<Rightarrow> timestamp \<Rightarrow> string \<Rightarrow> store \<Rightarrow> store \<times> bool" where
  "checkUserBanned now now' userId s =
     (case getUser s userId of
        None \<Rightarrow> (s, False)
      | Some usr \<Rightarrow>
          if \<not> u_isBanned usr then (s, False)
          else (case u_bannedUntil usr of
                  Some t \<Rightarrow>
                    if now > t then (fst (unbanUser now' userId s), False)
                    else (s, u_isBanned usr)
                | None \<Rightarrow> (s, u_isBanned usr)))"

section \<open>Request bodies\<close>

text \<open>
  A parsed JSON value. Arrays and objects are kept without their contents: every place that
  meets one either tests its truthiness (always true) or rejects it. Numbers are taken as
  integers; only whether one is zero matters.
\<close>

datatype json = JNull | JBool bool | JNum int | JStr string | JArr | JObj

text \<open>A request body is the parsed JSON object, as its list of keys and values.\<close>

type_synonym body = "(string \<times> json) list"

definition field :: "body \<Rightarrow> string \<Rightarrow> json option" where
  "field b k = map_of b k"

text \<open>JavaScript truthiness of a property that may be absent (\<open>undefined\<close>).\<close>

fun truthy :: "json option \<Rightarrow> bool" where
  "truthy None = False"
| "truthy (Some JNull) = False"
| "truthy (Some (JBool b)) = b"
| "truthy (Some (JNum n)) = (n \<noteq> 0)"
| "truthy (Some (JStr s)) = (s \<noteq> [])"
| "truthy (Some JArr) = True"
| "truthy (Some JObj) = True"

text \<open>A property of an object handed to the database layer: \<open>undefined\<close>, \<open>null\<close> or a
  value.\<close>

datatype 'a fld = Missing | IsNull | Has 'a

section \<open>What the libraries leave open\<close>

text \<open>
  Four behaviours belong to libraries and to the database, not to this repository, and the
  source does not pin them down. They are parameters of the model; a theorem below holds for
  each value of them, unless its statement fixes one.
  \<^item> \<open>zodVarcharMax\<close>: whether \<open>createInsertSchema\<close> turns the length of a
    \<open>varchar(n)\<close> column into a \<open>.max(n)\<close> check (it depends on the library version).
  \<^item> \<open>likesUnique\<close>: whether the raw \<open>UNIQUE (entry_id, user_id)\<close> fragment in the
    declaration of the \<open>likes\<close> table reaches the database as a constraint.
  \<^item> \<open>pgBoolean\<close>: what the driver and the database make of a value that is neither a
    boolean nor null when it is written into a boolean column (\<open>None\<close>: the statement fails).
  \<^item> \<open>pgText\<close>: the text the driver sends for a query parameter that is not a string
    (\<open>None\<close>: the query fails).
\<close>

record platform =
  zodVarcharMax :: bool
  likesUnique :: bool
  pgBoolean :: "json \<Rightarrow> bool option"
  pgText :: "json \<Rightarrow> string option"

section \<open>Validation schemas (shared schema, drizzle-zod)\<close>

text \<open>A validator returns \<open>None\<close> where zod raises a \<open>ZodError\<close>.\<close>

fun z_string :: "bool \<Rightarrow> nat option \<Rightarrow> json option \<Rightarrow> string fld option" where
  "z_string chk mx None = Some Missing"
| "z_string chk mx (Some JNull) = Some IsNull"
| "z_string chk mx (Some (JStr s)) =
     (case mx of
        Some n \<Rightarrow> if chk \<and> n < length s then None else Some (Has s)
      | None \<Rightarrow> Some (Has s))"
| "z_string chk mx (Some v) = None"

fun z_boolean :: "json option \<Rightarrow> bool fld option" where
  "z_boolean None = Some Missing"
| "z_boolean (Some JNull) = Some IsNull"
| "z_boolean (Some (JBool b)) = Some (Has b)"
| "z_boolean (Some v) = None"

text \<open>A column that is \<open>notNull\<close> without a default: the key must be there, and not null.\<close>

fun required :: "'a fld option \<Rightarrow> 'a option" where
  "required (Some (Has x)) = Some x"
| "required r = None"

text \<open>\<open>.optional()\<close> on a \<open>notNull\<close> column: the key may be absent, null is refused.\<close>

fun optional :: "'a fld option \<Rightarrow> 'a option option" where
  "optional (Some Missing) = Some None"
| "optional (Some (Has x)) = Some (Some x)"
| "optional r = None"

text \<open>\<open>.nullable().optional()\<close> on a nullable column: absent, null or a value.\<close>

definition nullish :: "'a fld option \<Rightarrow> 'a fld option" where
  "nullish r = r"

text \<open>
  \<open>InsertWikiEntry\<close>: the columns of \<open>wiki_entries\<close> without \<open>id\<close>, \<open>createdAt\<close> and
  \<open>updatedAt\<close>. \<open>status\<close> is not omitted.
\<close>

record insert_entry =
  ie_userId :: string
  ie_title :: string
  ie_description :: string
  ie_imageUrl :: "string fld"
  ie_status :: "string option"
  ie_verification :: "string fld"
  ie_isSpecial :: "bool option"
  ie_specialAccessToken :: "string fld"

text \<open>\<open>insertWikiEntrySchema.parse\<close>: a plain zod object drops the keys it does not know.\<close>

definition insertWikiEntrySchema :: "platform \<Rightarrow> body \<Rightarrow> insert_entry option" where
  "insertWikiEntrySchema p b =
     do {
       userId \<leftarrow> required (z_string (zodVarcharMax p) None (field b ''userId''));
       title \<leftarrow> required (z_string (zodVarcharMax p) (Some 255) (field b ''title''));
       description \<leftarrow> required (z_string (zodVarcharMax p) None (field b ''description''));
       imageUrl \<leftarrow> nullish (z_string (zodVarcharMax p) None (field b ''imageUrl''));
       status \<leftarrow> optional (z_string (zodVarcharMax p) (Some 50) (field b ''status''));
       verification \<leftarrow> nullish (z_string (zodVarcharMax p) (Some 50) (field b ''verification''));
       isSpecial \<leftarrow> optional (z_boolean (field b ''isSpecial''));
       specialAccessToken \<leftarrow>
         nullish (z_string (zodVarcharMax p) None (field b ''specialAccessToken''));
       Some \<lparr>ie_userId = userId, ie_title = title, ie_description = description,
             ie_imageUrl = imageUrl, ie_status = status, ie_verification = verification,
             ie_isSpecial = isSpecial, ie_specialAccessToken = specialAccessToken\<rparr>
     }"

text \<open>
  \<open>UpdateWikiEntry\<close>: \<open>id\<close>, \<open>userId\<close>, \<open>status\<close>, \<open>createdAt\<close> and \<open>updatedAt\<close> omitted,
  every remaining key optional. \<open>ue_isSpecial\<close> can hold null because one route hands an
  unvalidated object to \<open>updateEntry\<close>.
\<close>

record update_entry =
  ue_title :: "string option"
  ue_description :: "string option"
  ue_imageUrl :: "string fld"
  ue_verification :: "string fld"
  ue_isSpecial :: "bool fld"
  ue_specialAccessToken :: "string fld"

definition update_keys :: "string list" where
  "update_keys = [''title'', ''description'', ''imageUrl'', ''verification'', ''isSpecial'',
                  ''specialAccessToken'']"

text \<open>\<open>updateWikiEntrySchema.parse\<close>: \<open>.strict()\<close> refuses a body with any other key.\<close>

definition updateWikiEntrySchema :: "platform \<Rightarrow> body \<Rightarrow> update_entry option" where
  "updateWikiEntrySchema p b =
     (if \<not> list_all (\<lambda>k. k \<in> set update_keys) (map fst b) then None
      else do {
        title \<leftarrow> optional (z_string (zodVarcharMax p) (Some 255) (field b ''title''));
        description \<leftarrow> optional (z_string (zodVarcharMax p) None (field b ''description''));
        imageUrl \<leftarrow> nullish (z_string (zodVarcharMax p) None (field b ''imageUrl''));
        verification \<leftarrow> nullish (z_string (zodVarcharMax p) (Some 50) (field b ''verification''));
        isSpecial \<leftarrow> optional (z_boolean (field b ''isSpecial''));
        specialAccessToken \<leftarrow>
          nullish (z_string (zodVarcharMax p) None (field b ''specialAccessToken''));
        Some \<lparr>ue_title = title, ue_description = description, ue_imageUrl = imageUrl,
              ue_verification = verification,
              ue_isSpecial = (case isSpecial of None \<Rightarrow> Missing | Some v \<Rightarrow> Has v),
              ue_specialAccessToken = specialAccessToken\<rparr>
      })"

text \<open>\<open>insertLikeSchema.parse\<close> of \<open>{entryId, userId}\<close>.\<close>

definition insertLikeSchema :: "platform \<Rightarrow> body \<Rightarrow> (string \<times> string) option" where
  "insertLikeSchema p b =
     do {
       entryId \<leftarrow> required (z_string (zodVarcharMax p) None (field b ''entryId''));
       userId \<leftarrow> required (z_string (zodVarcharMax p) None (field b ''userId''));
       Some (entryId, userId)
     }"

section \<open>Storage layer: wiki entries (server/storage.ts)\<close>

text \<open>
  A storage function that can throw (a constraint of the database is violated) returns
  \<open>None\<close> for the exception.

  PostgreSQL on a value for a \<open>varchar(n)\<close> column: a longer string is an error, unless the
  excess characters are all spaces, in which case it is cut to \<open>n\<close> characters.
\<close>

definition pg_varchar :: "nat \<Rightarrow> string \<Rightarrow> string option" where
  "pg_varchar n s =
     (if length s \<le> n then Some s
      else if list_all (\<lambda>c. c = CHR '' '') (drop n s) then Some (take n s)
      else None)"

definition getEntry :: "store \<Rightarrow> string \<Rightarrow> wiki_entry option" where
  "getEntry s i = find (\<lambda>e. e_id e = i) (wikiEntries s)"

text \<open>
  \<open>createEntry\<close>: \<open>newId\<close> is the value \<open>gen_random_uuid()\<close> draws for the primary key and
  \<open>now\<close> the \<open>defaultNow()\<close> of both timestamps. A key the data leaves \<open>undefined\<close> takes the
  column default. The insert fails on a primary key that is taken, on a \<open>userId\<close> that is no
  user (foreign key) and on a string too long for its column.
\<close>

definition createEntry ::
  "string \<Rightarrow> timestamp \<Rightarrow> insert_entry \<Rightarrow> store \<Rightarrow> (store \<times> wiki_entry) option" where
  "createEntry newId now d s =
     (if newId \<in> set (map e_id (wikiEntries s)) then None
      else if getUser s (ie_userId d) = None then None
      else do {
        title \<leftarrow> pg_varchar 255 (ie_title d);
        status \<leftarrow> (case ie_status d of None \<Rightarrow> Some ''pending'' | Some st \<Rightarrow> pg_varchar 50 st);
        verification \<leftarrow>
          (case ie_verification d of
             Missing \<Rightarrow> Some (Some ''unknown'')
           | IsNull \<Rightarrow> Some None
           | Has v \<Rightarrow> map_option Some (pg_varchar 50 v));
        let entry = \<lparr>e_id = newId, e_userId = ie_userId d, e_title = title,
                      e_description = ie_description d,
                      e_imageUrl = (case ie_imageUrl d of Has u \<Rightarrow> Some u | _ \<Rightarrow> None),
                      e_status = status, e_verification = verification,
                      e_isSpecial = (case ie_isSpecial d of None \<Rightarrow> False | Some f \<Rightarrow> f),
                      e_specialAccessToken =
                        (case ie_specialAccessToken d of Has k \<Rightarrow> Some k | _ \<Rightarrow> None),
                      e_createdAt = Some now, e_updatedAt = Some now\<rparr>;
        Some (s\<lparr>wikiEntries := wikiEntries s @ [entry]\<rparr>, entry)
      })"

text \<open>\<open>UPDATE ... WHERE\<close>: every row that satisfies \<open>w\<close> is rewritten by \<open>f\<close>; the statement
  fails as a whole when a row refuses its new values (\<open>f\<close> fails on it).\<close>

fun update_where :: "('a \<Rightarrow> bool) \<Rightarrow> ('a \<Rightarrow> 'a option) \<Rightarrow> 'a list \<Rightarrow> 'a list option" where
  "update_where w f [] = Some []"
| "update_where w f (x # xs) =
     (if w x
      then (case f x of
              None \<Rightarrow> None
            | Some y \<Rightarrow> map_option ((#) y) (update_where w f xs))
      else map_option ((#) x) (update_where w f xs))"

text \<open>
  The values of a \<open>SET\<close> clause are coerced to the types of their columns before any row is
  looked at: a string too long for its \<open>varchar(n)\<close> fails the statement whether or not a
  row matches.
\<close>

definition coerce_update :: "update_entry \<Rightarrow> update_entry option" where
  "coerce_update d =
     do {
       title \<leftarrow> (case ue_title d of
                  None \<Rightarrow> Some None
                | Some t \<Rightarrow> map_option Some (pg_varchar 255 t));
       verification \<leftarrow> (case ue_verification d of
                         Has v \<Rightarrow> map_option Has (pg_varchar 50 v)
                       | x \<Rightarrow> Some x);
       Some (d\<lparr>ue_title := title, ue_verification := verification\<rparr>)
     }"

text \<open>
  The \<open>SET\<close> clause of \<open>updateEntry\<close> on one row: \<open>{...entryData, updatedAt: new Date()}\<close>.
  A key that is \<open>undefined\<close> leaves its column alone; null into the \<open>notNull\<close> column
  \<open>is_special\<close> fails on the row.
\<close>

definition set_entry :: "update_entry \<Rightarrow> timestamp \<Rightarrow> wiki_entry \<Rightarrow> wiki_entry option" where
  "set_entry d now e =
     (if ue_isSpecial d = IsNull then None
      else Some (e\<lparr>e_title := (case ue_title d of None \<Rightarrow> e_title e | Some x \<Rightarrow> x),
                    e_description := (case ue_description d of None \<Rightarrow> e_description e | Some x \<Rightarrow> x),
                    e_imageUrl := (case ue_imageUrl d of
                                     Missing \<Rightarrow> e_imageUrl e | IsNull \<Rightarrow> None | Has u \<Rightarrow> Some u),
                    e_verification := (case ue_verification d of
                                         Missing \<Rightarrow> e_verification e | IsNull \<Rightarrow> None | Has v \<Rightarrow> Some v),
                    e_isSpecial := (case ue_isSpecial d of Has f \<Rightarrow> f | _ \<Rightarrow> e_isSpecial e),
                    e_specialAccessToken :=
                      (case ue_specialAccessToken d of
                         Missing \<Rightarrow> e_specialAccessToken e | IsNull \<Rightarrow> None | Has k \<Rightarrow> Some k),
                    e_updatedAt := Some now\<rparr>))"

text \<open>\<open>updateEntry\<close>, \<open>moderateEntry\<close>, \<open>setEntryVerification\<close>: the new store and the first
  row of \<open>.returning()\<close> (\<open>undefined\<close> when no row has the id).\<close>

definition updateEntry ::
  "timestamp \<Rightarrow> string \<Rightarrow> update_entry \<Rightarrow> store \<Rightarrow> (store \<times> wiki_entry option) option" where
  "updateEntry now i d s =
     (case coerce_update d of
        None \<Rightarrow> None
      | Some d' \<Rightarrow>
          (case update_where (\<lambda>e. e_id e = i) (set_entry d' now) (wikiEntries s) of
             None \<Rightarrow> None
           | Some rows \<Rightarrow> Some (s\<lparr>wikiEntries := rows\<rparr>, find (\<lambda>e. e_id e = i) rows)))"

definition moderateEntry ::
  "timestamp \<Rightarrow> string \<Rightarrow> string \<Rightarrow> store \<Rightarrow> (store \<times> wiki_entry option) option" where
  "moderateEntry now i status s =
     (case pg_varchar 50 status of
        None \<Rightarrow> None
      | Some st \<Rightarrow>
          (let rows = map (\<lambda>e. if e_id e = i then e\<lparr>e_status := st, e_updatedAt := Some now\<rparr>
                                else e) (wikiEntries s)
           in Some (s\<lparr>wikiEntries := rows\<rparr>, find (\<lambda>e. e_id e = i) rows)))"

definition setEntryVerification ::
  "timestamp \<Rightarrow> string \<Rightarrow> string \<Rightarrow> store \<Rightarrow> (store \<times> wiki_entry option) option" where
  "setEntryVerification now i verification s =
     (case pg_varchar 50 verification of
        None \<Rightarrow> None
      | Some v \<Rightarrow>
          (let rows = map (\<lambda>e. if e_id e = i
                                then e\<lparr>e_verification := Some v, e_updatedAt := Some now\<rparr>
                                else e) (wikiEntries s)
           in Some (s\<lparr>wikiEntries := rows\<rparr>, find (\<lambda>e. e_id e = i) rows)))"

text \<open>\<open>deleteEntry\<close>: the likes of the entry go with it (\<open>onDelete: "cascade"\<close>).\<close>

definition deleteEntry :: "string \<Rightarrow> store \<Rightarrow> store" where
  "deleteEntry i s =
     s\<lparr>wikiEntries := filter (\<lambda>e. e_id e \<noteq> i) (wikiEntries s),
       likes := filter (\<lambda>l. l_entryId l \<noteq> i) (likes s)\<rparr>"

definition deleteEntryAdmin :: "string \<Rightarrow> store \<Rightarrow> store" where
  "deleteEntryAdmin i s =
     s\<lparr>wikiEntries := filter (\<lambda>e. e_id e \<noteq> i) (wikiEntries s),
       likes := filter (\<lambda>l. l_entryId l \<noteq> i) (likes s)\<rparr>"

text \<open>\<open>deleteUser\<close>: the user's entries and likes go with the row, and with each of those
  entries its likes.\<close>

definition deleteUser :: "string \<Rightarrow> store \<Rightarrow> store" where
  "deleteUser userId s =
     s\<lparr>users := filter (\<lambda>u. u_id u \<noteq> userId) (users s),
       wikiEntries := filter (\<lambda>e. e_userId e \<noteq> userId) (wikiEntries s),
       likes := filter (\<lambda>l. l_userId l \<noteq> userId \<and>
                          l_entryId l \<notin> set (map e_id (filter (\<lambda>e. e_userId e = userId)
                                                               (wikiEntries s))))
                       (likes s)\<rparr>"

text \<open>\<open>ORDER BY created_at DESC\<close>: PostgreSQL puts nulls first in a descending order. Rows
  with equal keys keep their table order here (the database promises no order among them).\<close>

fun created_before :: "timestamp option \<Rightarrow> timestamp option \<Rightarrow> bool" where
  "created_before None y = True"
| "created_before (Some a) None = False"
| "created_before (Some a) (Some b) = (b \<le> a)"

fun insert_desc :: "('a \<Rightarrow> timestamp option) \<Rightarrow> 'a \<Rightarrow> 'a list \<Rightarrow> 'a list" where
  "insert_desc k x [] = [x]"
| "insert_desc k x (y # ys) =
     (if created_before (k x) (k y) then x # y # ys else y # insert_desc k x ys)"

definition order_desc :: "('a \<Rightarrow> timestamp option) \<Rightarrow> 'a list \<Rightarrow> 'a list" where
  "order_desc k xs = foldr (insert_desc k) xs []"

text \<open>\<open>getApprovedEntries\<close>: entries joined with their user, status \<open>approved\<close> only.\<close>

definition getApprovedEntries :: "store \<Rightarrow> (wiki_entry \<times> user) list" where
  "getApprovedEntries s =
     order_desc (\<lambda>(e, u). e_createdAt e)
       (filter (\<lambda>(e, u). e_status e = ''approved'')
          (concat (map (\<lambda>e. map (\<lambda>u. (e, u)) (filter (\<lambda>u. e_userId e = u_id u) (users s)))
                       (wikiEntries s))))"

text \<open>
  A value of the query string: absent, one string, or a repeated or bracketed parameter
  (an array or an object: truthy, and never \<open>===\<close> a string).
\<close>

datatype qparam = QAbsent | QString string | QOther

text \<open>\<open>getSpecialPost\<close>: \<open>!token\<close> holds for an absent and for an empty token.\<close>

definition getSpecialPost :: "store \<Rightarrow> string \<Rightarrow> qparam \<Rightarrow> wiki_entry option" where
  "getSpecialPost s entryId token =
     (case getEntry s entryId of
        None \<Rightarrow> None
      | Some entry \<Rightarrow>
          if e_isSpecial entry \<and>
             (token = QAbsent \<or> token = QString [] \<or>
              (case token of
                 QString k \<Rightarrow> e_specialAccessToken entry \<noteq> Some k
               | _ \<Rightarrow> True))
          then None
          else Some entry)"

section \<open>Storage layer: likes (server/storage.ts)\<close>

definition userLikesEntry :: "store \<Rightarrow> string \<Rightarrow> string \<Rightarrow> bool" where
  "userLikesEntry s entryId userId =
     (find (\<lambda>l. l_entryId l = entryId \<and> l_userId l = userId) (likes s) \<noteq> None)"

text \<open>
  \<open>createLike\<close>: fails on a taken primary key, on an entry or a user that does not exist
  (foreign keys) and, where the database has the unique constraint, on a pair that is
  already there.
\<close>

definition createLike ::
  "platform \<Rightarrow> string \<Rightarrow> timestamp \<Rightarrow> string \<times> string \<Rightarrow> store \<Rightarrow> (store \<times> like) option" where
  "createLike p newId now d s =
     (if newId \<in> set (map l_id (likes s)) then None
      else if getEntry s (fst d) = None \<or> getUser s (snd d) = None then None
      else if likesUnique p \<and> userLikesEntry s (fst d) (snd d) then None
      else (let row = \<lparr>l_id = newId, l_entryId = fst d, l_userId = snd d,
                        l_createdAt = Some now\<rparr>
            in Some (s\<lparr>likes := likes s @ [row]\<rparr>, row)))"

definition removeLike :: "string \<Rightarrow> string \<Rightarrow> store \<Rightarrow> store" where
  "removeLike entryId userId s =
     s\<lparr>likes := filter (\<lambda>l. \<not> (l_entryId l = entryId \<and> l_userId l = userId)) (likes s)\<rparr>"

section \<open>Routes (server routes)\<close>

text \<open>
  A handler takes the store and returns the store it leaves and the response: the HTTP
  status and the JSON it sends. The handlers below start where the \<open>isAuthenticated\<close>
  middleware has let the request through; \<open>userId\<close> is \<open>req.user.claims.sub\<close>.

  A handler awaits its storage calls one by one, and each call is one statement of the
  database. A handler given as a single function is the run in which no storage call of
  another request falls between its own. \<open>POST /api/likes\<close> is given step by step as well,
  with the run of two requests that overlap.
\<close>

datatype payload =
    Entry wiki_entry
  | Entries "(wiki_entry \<times> user) list"
  | LikeRow like
  | Message string
  | Success
  | NoBody

datatype response = Response nat payload

text \<open>\<open>GET /api/entries/approved\<close>, open to everyone.\<close>

definition get_entries_approved :: "store \<Rightarrow> store \<times> response" where
  "get_entries_approved s = (s, Response 200 (Entries (getApprovedEntries s)))"

text \<open>\<open>POST /api/entries\<close>: the body with \<open>userId\<close> overwritten by the caller's id.\<close>

definition post_entries ::
  "platform \<Rightarrow> string \<Rightarrow> timestamp \<Rightarrow> string \<Rightarrow> body \<Rightarrow> store \<Rightarrow> store \<times> response" where
  "post_entries p newId now userId b s =
     (case insertWikiEntrySchema p ((''userId'', JStr userId) # b) of
        None \<Rightarrow> (s, Response 400 (Message ''Invalid entry data''))
      | Some validatedData \<Rightarrow>
          (case createEntry newId now validatedData s of
             None \<Rightarrow> (s, Response 500 (Message ''Failed to create entry''))
           | Some (s', entry) \<Rightarrow> (s', Response 201 (Entry entry))))"

text \<open>\<open>GET /api/entries/:id\<close>, for any authenticated caller.\<close>

definition get_entries_id :: "string \<Rightarrow> string \<Rightarrow> store \<Rightarrow> store \<times> response" where
  "get_entries_id userId i s =
     (case getEntry s i of
        None \<Rightarrow> (s, Response 404 (Message ''Entry not found''))
      | Some entry \<Rightarrow> (s, Response 200 (Entry entry)))"

text \<open>
  \<open>PATCH /api/entries/:id\<close>. \<open>const { status, ...bodyWithoutStatus } = req.body\<close> drops the
  key \<open>status\<close>. The response carries the row that \<open>updateEntry\<close> returned, read before
  \<open>moderateEntry\<close> ran.
\<close>

definition patch_entries_id ::
  "platform \<Rightarrow> timestamp \<Rightarrow> timestamp \<Rightarrow> string \<Rightarrow> string \<Rightarrow> body \<Rightarrow> store \<Rightarrow> store \<times> response" where
  "patch_entries_id p now now' userId i b s =
     (case getEntry s i of
        None \<Rightarrow> (s, Response 404 (Message ''Entry not found''))
      | Some existingEntry \<Rightarrow>
          if e_userId existingEntry \<noteq> userId
          then (s, Response 403 (Message ''Forbidden - You can only edit your own entries''))
          else
            (case updateWikiEntrySchema p (filter (\<lambda>(k, v). k \<noteq> ''status'') b) of
               None \<Rightarrow> (s, Response 400 (Message ''Invalid entry data''))
             | Some validatedData \<Rightarrow>
                 (case updateEntry now i validatedData s of
                    None \<Rightarrow> (s, Response 500 (Message ''Failed to update entry''))
                  | Some (s1, None) \<Rightarrow> (s1, Response 404 (Message ''Entry not found''))
                  | Some (s1, Some entry) \<Rightarrow>
                      (case moderateEntry now' i ''pending'' s1 of
                         None \<Rightarrow> (s1, Response 500 (Message ''Failed to update entry''))
                       | Some (s2, r) \<Rightarrow> (s2, Response 200 (Entry entry))))))"

text \<open>\<open>DELETE /api/entries/:id\<close>.\<close>

definition delete_entries_id :: "string \<Rightarrow> string \<Rightarrow> store \<Rightarrow> store \<times> response" where
  "delete_entries_id userId i s =
     (case getEntry s i of
        None \<Rightarrow> (s, Response 404 (Message ''Entry not found''))
      | Some existingEntry \<Rightarrow>
          if e_userId existingEntry \<noteq> userId
          then (s, Response 403 (Message ''Forbidden - You can only delete your own entries''))
          else (deleteEntry i s, Response 204 NoBody))"

text \<open>
  \<open>POST /api/likes\<close>, first step: the checks up to \<open>insertLikeSchema.parse\<close>, with the
  lookup \<open>await storage.userLikesEntry(entryId, userId)\<close> among them. The step either sends
  the response or goes on with the validated data. \<open>entryId\<close> is whatever JSON value the body
  holds: the lookup takes it as a query parameter, the schema accepts a string only.
\<close>

datatype like_step = Respond response | Proceed "string \<times> string"

definition entryId_param :: "platform \<Rightarrow> json \<Rightarrow> string option" where
  "entryId_param p v = (case v of JStr k \<Rightarrow> Some k | _ \<Rightarrow> pgText p v)"

definition post_likes_check :: "platform \<Rightarrow> string \<Rightarrow> body \<Rightarrow> store \<Rightarrow> like_step" where
  "post_likes_check p userId b s =
     (case field b ''entryId'' of
        None \<Rightarrow> Respond (Response 400 (Message ''Entry ID required''))
      | Some entryId \<Rightarrow>
          if \<not> truthy (Some entryId)
          then Respond (Response 400 (Message ''Entry ID required''))
          else
            (case entryId_param p entryId of
               None \<Rightarrow> Respond (Response 500 (Message ''Failed to create like''))
             | Some k \<Rightarrow>
                 if userLikesEntry s k userId
                 then Respond (Response 400 (Message ''Already liked this entry''))
                 else
                   (case insertLikeSchema p [(''entryId'', entryId), (''userId'', JStr userId)] of
                      None \<Rightarrow> Respond (Response 400 (Message ''Invalid like data''))
                    | Some validatedData \<Rightarrow> Proceed validatedData)))"

text \<open>Second step: \<open>await storage.createLike(validatedData)\<close> and the response.\<close>

definition post_likes_insert ::
  "platform \<Rightarrow> string \<Rightarrow> timestamp \<Rightarrow> string \<times> string \<Rightarrow> store \<Rightarrow> store \<times> response" where
  "post_likes_insert p newId now validatedData s =
     (case createLike p newId now validatedData s of
        None \<Rightarrow> (s, Response 500 (Message ''Failed to create like''))
      | Some (s', row) \<Rightarrow> (s', Response 201 (LikeRow row)))"

text \<open>The handler when nothing else touches the store between its two steps.\<close>

definition post_likes ::
  "platform \<Rightarrow> string \<Rightarrow> timestamp \<Rightarrow> string \<Rightarrow> body \<Rightarrow> store \<Rightarrow> store \<times> response" where
  "post_likes p newId now userId b s =
     (case post_likes_check p userId b s of
        Respond r \<Rightarrow> (s, r)
      | Proceed validatedData \<Rightarrow> post_likes_insert p newId now validatedData s)"

text \<open>
  Two requests to \<open>POST /api/likes\<close> that overlap: the lookups of both are answered from the
  same store before the insert of either runs; then the first inserts, then the second. The
  result is the store they leave and the two responses.
\<close>

definition post_likes_overlapping ::
  "platform \<Rightarrow> string \<Rightarrow> timestamp \<Rightarrow> string \<Rightarrow> body \<Rightarrow>
   string \<Rightarrow> timestamp \<Rightarrow> string \<Rightarrow> body \<Rightarrow> store \<Rightarrow> store \<times> response \<times> response" where
  "post_likes_overlapping p newId1 now1 userId1 b1 newId2 now2 userId2 b2 s =
     (let c1 = post_likes_check p userId1 b1 s;
          c2 = post_likes_check p userId2 b2 s;
          r1 = (case c1 of
                  Respond r \<Rightarrow> (s, r)
                | Proceed validatedData \<Rightarrow> post_likes_insert p newId1 now1 validatedData s);
          r2 = (case c2 of
                  Respond r \<Rightarrow> (fst r1, r)
                | Proceed validatedData \<Rightarrow> post_likes_insert p newId2 now2 validatedData (fst r1))
      in (fst r2, snd r1, snd r2))"

text \<open>\<open>DELETE /api/likes/:entryId\<close>.\<close>

definition delete_likes :: "string \<Rightarrow> string \<Rightarrow> store \<Rightarrow> store \<times> response" where
  "delete_likes userId entryId s = (removeLike entryId userId s, Response 200 Success)"

text \<open>\<open>GET /api/special/:entryId\<close>, open to everyone; \<open>token\<close> is \<open>req.query.token\<close>.\<close>

definition get_special :: "string \<Rightarrow> qparam \<Rightarrow> store \<Rightarrow> store \<times> response" where
  "get_special entryId token s =
     (case getSpecialPost s entryId token of
        None \<Rightarrow> (s, Response 404 (Message ''Entry not found or access denied''))
      | Some entry \<Rightarrow> (s, Response 200 (Entry entry)))"

text \<open>
  \<open>randomBytes(n)\<close>: a buffer of \<open>n\<close> bytes. \<open>src\<close> is what the generator of the platform
  yields for this call, \<open>src k\<close> being byte number \<open>k\<close>; that the generator is
  cryptographically strong is a property of the platform.
\<close>

definition randomBytes :: "(nat \<Rightarrow> 8 word) \<Rightarrow> nat \<Rightarrow> 8 word list" where
  "randomBytes src n = map src [0..<n]"

text \<open>\<open>Buffer.toString('hex')\<close>: two lower-case hexadecimal digits for each byte.\<close>

definition hex_digit :: "nat \<Rightarrow> char" where
  "hex_digit n = ''0123456789abcdef'' ! n"

definition toString_hex :: "8 word list \<Rightarrow> string" where
  "toString_hex bs =
     concat (map (\<lambda>w. [hex_digit (unat w div 16), hex_digit (unat w mod 16)]) bs)"

text \<open>
  The value \<open>isSpecial\<close> of the body as the \<open>UPDATE\<close> statement takes it: it reaches
  \<open>updateEntry\<close> unvalidated (\<open>as any\<close>).
\<close>

fun isSpecial_column :: "platform \<Rightarrow> json option \<Rightarrow> bool fld option" where
  "isSpecial_column p None = Some Missing"
| "isSpecial_column p (Some JNull) = Some IsNull"
| "isSpecial_column p (Some (JBool f)) = Some (Has f)"
| "isSpecial_column p (Some v) = map_option Has (pgBoolean p v)"

text \<open>
  \<open>PATCH /api/entries/:id/special\<close>. \<open>src\<close> is the generator behind \<open>randomBytes\<close>;
  it is used only when \<open>isSpecial\<close> is truthy.
\<close>

definition patch_entries_id_special ::
  "platform \<Rightarrow> (nat \<Rightarrow> 8 word) \<Rightarrow> timestamp \<Rightarrow> string \<Rightarrow> string \<Rightarrow> body \<Rightarrow> store \<Rightarrow>
   store \<times> response" where
  "patch_entries_id_special p src now userId i b s =
     (case getEntry s i of
        None \<Rightarrow> (s, Response 404 (Message ''Entry not found''))
      | Some existingEntry \<Rightarrow>
          if e_userId existingEntry \<noteq> userId
          then (s, Response 403 (Message ''Forbidden''))
          else
            (let specialAccessToken =
                   (if truthy (field b ''isSpecial'')
                    then Has (toString_hex (randomBytes src 32)) else Missing)
             in case isSpecial_column p (field b ''isSpecial'') of
                  None \<Rightarrow> (s, Response 500 (Message ''Failed to update entry''))
                | Some isSpecial \<Rightarrow>
                    (case updateEntry now i
                            \<lparr>ue_title = None, ue_description = None, ue_imageUrl = Missing,
                             ue_verification = Missing, ue_isSpecial = isSpecial,
                             ue_specialAccessToken = specialAccessToken\<rparr> s of
                       None \<Rightarrow> (s, Response 500 (Message ''Failed to update entry''))
                     | Some (s', None) \<Rightarrow> (s', Response 500 (Message ''Failed to update entry''))
                     | Some (s', Some updatedEntry) \<Rightarrow> (s', Response 200 (Entry updatedEntry)))))"

section \<open>Admin routes (server routes)\<close>

text \<open>
  These handlers start where the \<open>isAdmin\<close> middleware has let the request through.
  \<open>[...].includes(x)\<close> holds only for a string of the list.
\<close>

definition array_includes :: "string list \<Rightarrow> json option \<Rightarrow> bool" where
  "array_includes xs v = (case v of Some (JStr x) \<Rightarrow> x \<in> set xs | _ \<Rightarrow> False)"

text \<open>\<open>PATCH /api/admin/entries/:id/verify\<close>.\<close>

definition patch_admin_entries_id_verify ::
  "timestamp \<Rightarrow> string \<Rightarrow> body \<Rightarrow> store \<Rightarrow> store \<times> response" where
  "patch_admin_entries_id_verify now i b s =
     (if \<not> array_includes [''verified'', ''fake'', ''unknown''] (field b ''verification'')
      then (s, Response 400 (Message ''Invalid verification status''))
      else
        (case field b ''verification'' of
           Some (JStr verification) \<Rightarrow>
             (case setEntryVerification now i verification s of
                None \<Rightarrow> (s, Response 500 (Message ''Failed to verify entry''))
              | Some (s', None) \<Rightarrow> (s', Response 404 (Message ''Entry not found''))
              | Some (s', Some entry) \<Rightarrow> (s', Response 200 (Entry entry)))
         | _ \<Rightarrow> (s, Response 400 (Message ''Invalid verification status''))))"

text \<open>\<open>PATCH /api/admin/entries/:id/moderate\<close>.\<close>

definition patch_admin_entries_id_moderate ::
  "timestamp \<Rightarrow> string \<Rightarrow> body \<Rightarrow> store \<Rightarrow> store \<times> response" where
  "patch_admin_entries_id_moderate now i b s =
     (if \<not> array_includes [''approved'', ''pending'', ''rejected''] (field b ''status'')
      then (s, Response 400 (Message ''Invalid status''))
      else
        (case field b ''status'' of
           Some (JStr status) \<Rightarrow>
             (case moderateEntry now i status s of
                None \<Rightarrow> (s, Response 500 (Message ''Failed to moderate entry''))
              | Some (s', None) \<Rightarrow> (s', Response 404 (Message ''Entry not found''))
              | Some (s', Some entry) \<Rightarrow> (s', Response 200 (Entry entry)))
         | _ \<Rightarrow> (s, Response 400 (Message ''Invalid status''))))"

text \<open>\<open>DELETE /api/admin/entries/:id\<close> and \<open>DELETE /api/admin/users/:userId\<close>.\<close>

definition delete_admin_entries_id :: "string \<Rightarrow> store \<Rightarrow> store \<times> response" where
  "delete_admin_entries_id i s = (deleteEntryAdmin i s, Response 204 NoBody)"

definition delete_admin_users_id :: "string \<Rightarrow> store \<Rightarrow> store \<times> response" where
  "delete_admin_users_id userId s = (deleteUser userId s, Response 200 Success)"

section \<open>Invariants\<close>

text \<open>No two rows of \<open>likes\<close> have the same entry and the same user.\<close>

definition likes_unique :: "store \<Rightarrow> bool" where
  "likes_unique s = distinct (map (\<lambda>l. (l_entryId l, l_userId l)) (likes s))"

section \<open>Example data\<close>

definition example_platform :: platform where
  "example_platform = \<lparr>zodVarcharMax = True, likesUnique = False, pgBoolean = (\<lambda>v. None),
                        pgText = (\<lambda>v. None)\<rparr>"

definition alice :: user where
  "alice = \<lparr>u_id = ''alice'', u_isAdmin = False, u_role = ''user'', u_badge = Some ''none'',
            u_isBanned = False, u_bannedUntil = None, u_banReason = None,
            u_createdAt = Some 10, u_updatedAt = Some 10\<rparr>"

definition bob :: user where
  "bob = \<lparr>u_id = ''bob'', u_isAdmin = False, u_role = ''user'', u_badge = Some ''none'',
          u_isBanned = True, u_bannedUntil = Some 1000, u_banReason = Some ''spam'',
          u_createdAt = Some 20, u_updatedAt = Some 500\<rparr>"

definition carol :: user where
  "carol = \<lparr>u_id = ''carol'', u_isAdmin = False, u_role = ''user'', u_badge = Some ''none'',
            u_isBanned = True, u_bannedUntil = None, u_banReason = Some ''abuse'',
            u_createdAt = Some 30, u_updatedAt = Some 600\<rparr>"

definition ban_store :: store where
  "ban_store = \<lparr>users = [alice, bob, carol], wikiEntries = [], likes = []\<rparr>"

definition dave :: user where
  "dave = \<lparr>u_id = ''dave'', u_isAdmin = False, u_role = ''user'', u_badge = Some ''none'',
           u_isBanned = False, u_bannedUntil = None, u_banReason = None,
           u_createdAt = Some 40, u_updatedAt = Some 40\<rparr>"

definition e1 :: wiki_entry where
  "e1 = \<lparr>e_id = ''e1'', e_userId = ''alice'', e_title = ''First'', e_description = ''One'',
         e_imageUrl = None, e_status = ''approved'', e_verification = Some ''unknown'',
         e_isSpecial = False, e_specialAccessToken = None,
         e_createdAt = Some 50, e_updatedAt = Some 60\<rparr>"

definition e2 :: wiki_entry where
  "e2 = \<lparr>e_id = ''e2'', e_userId = ''alice'', e_title = ''Second'', e_description = ''Two'',
         e_imageUrl = None, e_status = ''pending'', e_verification = Some ''unknown'',
         e_isSpecial = False, e_specialAccessToken = None,
         e_createdAt = Some 70, e_updatedAt = Some 70\<rparr>"

definition e3 :: wiki_entry where
  "e3 = \<lparr>e_id = ''e3'', e_userId = ''alice'', e_title = ''Third'', e_description = ''Three'',
         e_imageUrl = None, e_status = ''approved'', e_verification = Some ''unknown'',
         e_isSpecial = True, e_specialAccessToken = Some ''c0ffee'',
         e_createdAt = Some 80, e_updatedAt = Some 90\<rparr>"

definition wiki_store :: store where
  "wiki_store = \<lparr>users = [alice, dave], wikiEntries = [e1, e2, e3], likes = []\<rparr>"

text \<open>A generator, standing for what \<open>randomBytes\<close> draws in one call.\<close>

definition drawn :: "nat \<Rightarrow> 8 word" where
  "drawn k = of_nat k"

lemmas wiki_defs = wiki_store_def alice_def dave_def e1_def e2_def e3_def

section \<open>Rows of a table\<close>

text \<open>Rewriting the rows with a given key: what the first of them becomes, and when the
  rewriting cannot fail.\<close>

lemma find_map_upd:
  assumes "find (\<lambda>u. k u = i) xs = Some u" and "\<And>x. k (f x) = k x"
  shows "find (\<lambda>u. k u = i) (map (\<lambda>x. if k x = i then f x else x) xs) = Some (f u)"
  using assms by (induction xs) (auto split: if_splits)

lemma update_where_map:
  assumes "\<And>x. w x \<Longrightarrow> f x = Some (g x)"
  shows "update_where w f xs = Some (map (\<lambda>x. if w x then g x else x) xs)"
  using assms by (induction xs) auto

section \<open>Ban expiry\<close>

lemma getUser_unbanUser:
  assumes "getUser s i = Some u"
  shows "getUser (fst (unbanUser now i s)) i =
           Some (u\<lparr>u_isBanned := False, u_banReason := None,
                   u_bannedUntil := None, u_updatedAt := Some now\<rparr>)"
proof -
  let ?f = "\<lambda>x. x\<lparr>u_isBanned := False, u_banReason := None,
                     u_bannedUntil := None, u_updatedAt := Some now\<rparr>"
  have "find (\<lambda>u. u_id u = i) (map (\<lambda>x. if u_id x = i then ?f x else x) (users s)) = Some (?f u)"
    using assms unfolding getUser_def by (intro find_map_upd) simp_all
  then show ?thesis by (simp add: unbanUser_def getUser_def Let_def)
qed

text \<open>
  C7. A banned user whose \<open>bannedUntil\<close> is set and lies in the past: \<open>checkUserBanned\<close>
  answers "not banned" and the store it leaves has the ban fields cleared, so the next read of
  the user sees \<open>isBanned = false\<close>, no reason and no expiry. A banned user whose
  \<open>bannedUntil\<close> is null: it answers "banned" at every time and writes nothing.
\<close>

theorem checkUserBanned_expiry:
  assumes "getUser s i = Some u" and "u_isBanned u"
  shows "(\<forall>t. u_bannedUntil u = Some t \<and> t < now \<longrightarrow>
            snd (checkUserBanned now now' i s) = False \<and>
            (\<exists>u'. getUser (fst (checkUserBanned now now' i s)) i = Some u' \<and>
                  \<not> u_isBanned u' \<and> u_banReason u' = None \<and> u_bannedUntil u' = None))
       \<and> (u_bannedUntil u = None \<longrightarrow> checkUserBanned now now' i s = (s, True))"
proof (intro conjI allI impI)
  fix t assume h: "u_bannedUntil u = Some t \<and> t < now"
  then have eq: "checkUserBanned now now' i s = (fst (unbanUser now' i s), False)"
    using assms by (simp add: checkUserBanned_def)
  show "snd (checkUserBanned now now' i s) = False" by (simp add: eq)
  show "\<exists>u'. getUser (fst (checkUserBanned now now' i s)) i = Some u' \<and>
             \<not> u_isBanned u' \<and> u_banReason u' = None \<and> u_bannedUntil u' = None"
    by (simp add: eq getUser_unbanUser[OF assms(1)])
next
  assume "u_bannedUntil u = None"
  then show "checkUserBanned now now' i s = (s, True)"
    using assms by (simp add: checkUserBanned_def)
qed

theorem checkUserBanned_expiry_witness:
  "snd (checkUserBanned 2000 2001 ''bob'' ban_store) = False
   \<and> (\<exists>u'. getUser (fst (checkUserBanned 2000 2001 ''bob'' ban_store)) ''bob'' = Some u' \<and>
           \<not> u_isBanned u' \<and> u_banReason u' = None \<and> u_bannedUntil u' = None)
   \<and> checkUserBanned 2000 2001 ''carol'' ban_store = (ban_store, True)"
proof -
  have b: "getUser ban_store ''bob'' = Some bob" "u_isBanned bob" "u_bannedUntil bob = Some 1000"
    by (simp_all add: getUser_def ban_store_def alice_def bob_def)
  have c: "getUser ban_store ''carol'' = Some carol" "u_isBanned carol" "u_bannedUntil carol = None"
    by (simp_all add: getUser_def ban_store_def alice_def bob_def carol_def)
  from checkUserBanned_expiry[OF b(1,2), of 2000 2001] b(3)
  have 1: "snd (checkUserBanned 2000 2001 ''bob'' ban_store) = False
     \<and> (\<exists>u'. getUser (fst (checkUserBanned 2000 2001 ''bob'' ban_store)) ''bob'' = Some u' \<and>
           \<not> u_isBanned u' \<and> u_banReason u' = None \<and> u_bannedUntil u' = None)"
    by simp
  from checkUserBanned_expiry[OF c(1,2), of 2000 2001] c(3)
  have 2: "checkUserBanned 2000 2001 ''carol'' ban_store = (ban_store, True)"
    by simp
  from 1 2 show ?thesis by simp
qed

text \<open>
  C8 as stated fails: with \<open>bannedUntil\<close> equal to the time of the check the comparison
  \<open>new Date() > user.bannedUntil\<close> is false, so the user is still banned and nothing is
  cleared.
\<close>

theorem checkUserBanned_boundary_counterexample:
  "getUser ban_store ''bob'' = Some bob \<and> u_isBanned bob \<and> u_bannedUntil bob = Some 1000
   \<and> checkUserBanned 1000 1000 ''bob'' ban_store = (ban_store, True)"
  by (simp add: checkUserBanned_def getUser_def ban_store_def alice_def bob_def)

text \<open>
  C8 as amended. For a banned user with \<open>bannedUntil = t\<close>, the ban is lifted exactly when
  the time of the check is strictly later than \<open>t\<close>: then \<open>checkUserBanned\<close> answers "not
  banned" and leaves the store that \<open>unbanUser\<close> writes, in which the user is read back with
  \<open>isBanned = false\<close>, no reason and no expiry. At \<open>t\<close> itself (and before) the answer is
  "banned" and the store is left as it was.
\<close>

theorem checkUserBanned_boundary:
  assumes "getUser s i = Some u" and "u_isBanned u" and "u_bannedUntil u = Some t"
  shows "(snd (checkUserBanned now now' i s) = False \<longleftrightarrow> t < now)
       \<and> (now \<le> t \<longrightarrow> checkUserBanned now now' i s = (s, True))
       \<and> (t < now \<longrightarrow>
            checkUserBanned now now' i s = (fst (unbanUser now' i s), False) \<and>
            getUser (fst (checkUserBanned now now' i s)) i =
              Some (u\<lparr>u_isBanned := False, u_banReason := None, u_bannedUntil := None,
                      u_updatedAt := Some now'\<rparr>))"
proof (intro conjI impI)
  show "snd (checkUserBanned now now' i s) = False \<longleftrightarrow> t < now"
    using assms by (simp add: checkUserBanned_def)
next
  assume "now \<le> t"
  then show "checkUserBanned now now' i s = (s, True)"
    using assms by (simp add: checkUserBanned_def)
next
  assume lt: "t < now"
  then show run: "checkUserBanned now now' i s = (fst (unbanUser now' i s), False)"
    using assms by (simp add: checkUserBanned_def)
  show "getUser (fst (checkUserBanned now now' i s)) i =
          Some (u\<lparr>u_isBanned := False, u_banReason := None, u_bannedUntil := None,
                  u_updatedAt := Some now'\<rparr>)"
    by (simp add: run getUser_unbanUser[OF assms(1)])
qed

theorem checkUserBanned_boundary_witness:
  "(snd (checkUserBanned 1000 1000 ''bob'' ban_store) = False \<longleftrightarrow> (1000::int) < 1000)
   \<and> checkUserBanned 1000 1000 ''bob'' ban_store = (ban_store, True)
   \<and> checkUserBanned 1001 1002 ''bob'' ban_store = (fst (unbanUser 1002 ''bob'' ban_store), False)
   \<and> getUser (fst (checkUserBanned 1001 1002 ''bob'' ban_store)) ''bob'' =
        Some (bob\<lparr>u_isBanned := False, u_banReason := None, u_bannedUntil := None,
                  u_updatedAt := Some 1002\<rparr>)"
proof -
  have b: "getUser ban_store ''bob'' = Some bob" "u_isBanned bob" "u_bannedUntil bob = Some 1000"
    by (simp_all add: getUser_def ban_store_def alice_def bob_def)
  note at = checkUserBanned_boundary[OF b, of 1000 1000]
  note after = checkUserBanned_boundary[OF b, of 1001 1002]
  from at have 1: "snd (checkUserBanned 1000 1000 ''bob'' ban_store) = False \<longleftrightarrow> (1000::int) < 1000"
    by blast
  from at have 2: "checkUserBanned 1000 1000 ''bob'' ban_store = (ban_store, True)"
    by simp
  have "(1000::int) < 1001" by simp
  with after have 3:
    "checkUserBanned 1001 1002 ''bob'' ban_store = (fst (unbanUser 1002 ''bob'' ban_store), False)"
    "getUser (fst (checkUserBanned 1001 1002 ''bob'' ban_store)) ''bob'' =
        Some (bob\<lparr>u_isBanned := False, u_banReason := None, u_bannedUntil := None,
                  u_updatedAt := Some 1002\<rparr>)"
    by blast+
  from 1 2 3 show ?thesis by blast
qed

section \<open>Updates of entries\<close>

lemma pg_varchar_pending: "pg_varchar 50 ''pending'' = Some ''pending''"
  by (simp add: pg_varchar_def)

lemma moderateEntry_pending:
  "moderateEntry now i ''pending'' s =
     (let rows = map (\<lambda>e. if e_id e = i then e\<lparr>e_status := ''pending'', e_updatedAt := Some now\<rparr> else e)
                     (wikiEntries s)
      in Some (s\<lparr>wikiEntries := rows\<rparr>, find (\<lambda>e. e_id e = i) rows))"
  by (simp add: moderateEntry_def pg_varchar_pending)

text \<open>
  C5. Whenever the owner's edit succeeds (the handler answers 200), the stored entry has status
  \<open>pending\<close>, whatever its status was before and whatever the body held.
\<close>

theorem edit_resets_status:
  assumes "patch_entries_id p now now' userId i b s = (s', Response 200 r)"
  shows "\<exists>e e0. getEntry s i = Some e0 \<and> e_userId e0 = userId \<and>
               getEntry s' i = Some e \<and> e_status e = ''pending''"
proof -
  from assms obtain e0 where e0: "getEntry s i = Some e0" "e_userId e0 = userId"
    by (auto simp: patch_entries_id_def split: option.splits if_splits)
  from assms e0 obtain d s1 entry where
    upd: "updateEntry now i d s = Some (s1, Some entry)" and
    fin: "(case moderateEntry now' i ''pending'' s1 of
             None \<Rightarrow> (s1, Response 500 (Message ''Failed to update entry''))
           | Some (s2, r) \<Rightarrow> (s2, Response 200 (Entry entry))) = (s', Response 200 r)"
    by (auto simp: patch_entries_id_def split: option.splits if_splits)
  from upd have f1: "find (\<lambda>e. e_id e = i) (wikiEntries s1) = Some entry"
    by (auto simp: updateEntry_def split: option.splits)
  let ?g = "\<lambda>e. e\<lparr>e_status := ''pending'', e_updatedAt := Some now'\<rparr>"
  from fin have s': "s' = s1\<lparr>wikiEntries := map (\<lambda>e. if e_id e = i then ?g e else e) (wikiEntries s1)\<rparr>"
    by (simp add: moderateEntry_pending Let_def)
  have "find (\<lambda>e. e_id e = i) (map (\<lambda>e. if e_id e = i then ?g e else e) (wikiEntries s1)) = Some (?g entry)"
    using f1 by (intro find_map_upd) simp_all
  then have "getEntry s' i = Some (?g entry)" by (simp add: s' getEntry_def)
  with e0 show ?thesis by simp
qed

theorem edit_resets_status_witness:
  "\<exists>s' r e. patch_entries_id example_platform 200 201 ''alice'' ''e1''
        [(''title'', JStr ''New''), (''status'', JStr ''approved'')] wiki_store = (s', Response 200 r)
      \<and> e_status e1 = ''approved'' \<and> getEntry s' ''e1'' = Some e \<and> e_status e = ''pending''"
proof -
  have "\<exists>s' r. patch_entries_id example_platform 200 201 ''alice'' ''e1''
        [(''title'', JStr ''New''), (''status'', JStr ''approved'')] wiki_store = (s', Response 200 r)"
    by (simp add: patch_entries_id_def updateWikiEntrySchema_def update_keys_def field_def nullish_def
          updateEntry_def coerce_update_def moderateEntry_def set_entry_def getEntry_def
          pg_varchar_def
          example_platform_def wiki_defs)
  then obtain s' r where h: "patch_entries_id example_platform 200 201 ''alice'' ''e1''
        [(''title'', JStr ''New''), (''status'', JStr ''approved'')] wiki_store = (s', Response 200 r)"
    by blast
  from edit_resets_status[OF h] obtain e where "getEntry s' ''e1'' = Some e" "e_status e = ''pending''"
    by blast
  with h show ?thesis by (auto simp: e1_def)
qed

section \<open>Ownership checks\<close>

text \<open>
  C6. An edit or a delete of an entry by anyone but its owner is answered 403 and the store
  is left exactly as it was (admin or not: these two routes know only the owner). An edit or a
  delete that names an id no entry has is answered 404, again without a write.
\<close>

theorem foreign_edit_delete_refused:
  "(getEntry s i = Some e \<and> e_userId e \<noteq> userId \<longrightarrow>
      patch_entries_id p now now' userId i b s =
        (s, Response 403 (Message ''Forbidden - You can only edit your own entries'')) \<and>
      delete_entries_id userId i s =
        (s, Response 403 (Message ''Forbidden - You can only delete your own entries'')))
   \<and> (getEntry s i = None \<longrightarrow>
      patch_entries_id p now now' userId i b s = (s, Response 404 (Message ''Entry not found'')) \<and>
      delete_entries_id userId i s = (s, Response 404 (Message ''Entry not found'')))"
  by (simp add: patch_entries_id_def delete_entries_id_def)

theorem foreign_edit_delete_refused_witness:
  "patch_entries_id example_platform 200 201 ''dave'' ''e1'' [(''title'', JStr ''Mine'')] wiki_store =
        (wiki_store, Response 403 (Message ''Forbidden - You can only edit your own entries''))
   \<and> delete_entries_id ''dave'' ''e1'' wiki_store =
        (wiki_store, Response 403 (Message ''Forbidden - You can only delete your own entries''))
   \<and> patch_entries_id example_platform 200 201 ''dave'' ''e7'' [(''title'', JStr ''Mine'')] wiki_store =
        (wiki_store, Response 404 (Message ''Entry not found''))
   \<and> delete_entries_id ''dave'' ''e7'' wiki_store = (wiki_store, Response 404 (Message ''Entry not found''))"
proof -
  have a: "getEntry wiki_store ''e1'' = Some e1 \<and> e_userId e1 \<noteq> ''dave''"
    by (simp add: getEntry_def wiki_defs)
  have b: "getEntry wiki_store ''e7'' = None"
    by (simp add: getEntry_def wiki_defs)
  from foreign_edit_delete_refused[of wiki_store "''e1''" e1 "''dave''" example_platform 200 201
        "[(''title'', JStr ''Mine'')]"]
       foreign_edit_delete_refused[of wiki_store "''e7''" e1 "''dave''" example_platform 200 201
        "[(''title'', JStr ''Mine'')]"] a b
  show ?thesis by simp
qed

section \<open>Creation\<close>

text \<open>
  C1 does not hold of the code. \<open>insertWikiEntrySchema\<close> keeps the key \<open>status\<close>, and
  \<open>POST /api/entries\<close> passes the body through it: a body that says
  \<open>status: "approved"\<close> creates an entry that is stored, and returned, as approved.
  Only a body without the key gets the column default \<open>pending\<close>.
\<close>

theorem create_keeps_supplied_status:
  "(\<exists>s' e. post_entries p ''e9'' 100 ''alice''
        [(''title'', JStr ''T''), (''description'', JStr ''D''), (''status'', JStr ''approved'')]
        wiki_store = (s', Response 201 (Entry e))
      \<and> getEntry s' ''e9'' = Some e \<and> e_status e = ''approved'')
   \<and> (\<exists>s' e. post_entries p ''e9'' 100 ''alice''
        [(''title'', JStr ''T''), (''description'', JStr ''D'')]
        wiki_store = (s', Response 201 (Entry e))
      \<and> getEntry s' ''e9'' = Some e \<and> e_status e = ''pending'')"
  by (simp add: post_entries_def insertWikiEntrySchema_def field_def nullish_def createEntry_def
        getUser_def getEntry_def pg_varchar_def Let_def wiki_defs)

section \<open>Fields an owner's edit can reach\<close>

text \<open>
  C10 does not hold of the code. \<open>updateWikiEntrySchema\<close> omits \<open>status\<close> but neither
  \<open>verification\<close> nor \<open>specialAccessToken\<close>: the owner's \<open>PATCH /api/entries/:id\<close> with
  these keys in the body rewrites both columns.
\<close>

theorem owner_edit_sets_verification:
  "\<exists>s' r e. patch_entries_id p 100 101 ''alice'' ''e1''
        [(''verification'', JStr ''verified''), (''specialAccessToken'', JStr ''mine'')] wiki_store
      = (s', Response 200 r) \<and> e_userId e1 = ''alice'' \<and> e_verification e1 = Some ''unknown''
       \<and> e_specialAccessToken e1 = None
       \<and> getEntry s' ''e1'' = Some e \<and> e_verification e = Some ''verified''
       \<and> e_specialAccessToken e = Some ''mine''"
  by (simp add: patch_entries_id_def updateWikiEntrySchema_def update_keys_def field_def nullish_def
        updateEntry_def coerce_update_def moderateEntry_def set_entry_def getEntry_def
          pg_varchar_def Let_def wiki_defs)

section \<open>The token-gated read path\<close>

text \<open>
  C3 as stated fails: \<open>getSpecialPost\<close> never looks at the status, so an anonymous caller
  with no token is handed a pending entry that is not special.
\<close>

theorem special_route_status_counterexample:
  "\<not> e_isSpecial e2 \<and> e_status e2 = ''pending'' \<and>
   get_special ''e2'' QAbsent wiki_store = (wiki_store, Response 200 (Entry e2))"
  by (simp add: get_special_def getSpecialPost_def getEntry_def wiki_defs)

text \<open>
  C3 as amended. For an entry that is not special, \<open>GET /api/special/:entryId\<close> answers 200
  with the entry, whatever its status and whatever token (or none) the caller sends.
\<close>

theorem special_route_plain_entry:
  assumes "getEntry s i = Some e" and "\<not> e_isSpecial e"
  shows "get_special i token s = (s, Response 200 (Entry e))"
  using assms by (simp add: get_special_def getSpecialPost_def)

theorem special_route_plain_entry_witness:
  "get_special ''e2'' QAbsent wiki_store = (wiki_store, Response 200 (Entry e2)) \<and>
   e_status e2 = ''pending'' \<and>
   get_special ''e1'' (QString ''x'') wiki_store = (wiki_store, Response 200 (Entry e1)) \<and>
   e_status e1 = ''approved''"
proof -
  have a: "getEntry wiki_store ''e2'' = Some e2" "\<not> e_isSpecial e2"
    and b: "getEntry wiki_store ''e1'' = Some e1" "\<not> e_isSpecial e1"
    by (simp_all add: getEntry_def wiki_defs)
  from special_route_plain_entry[OF a, of QAbsent] special_route_plain_entry[OF b, of "QString ''x''"]
  show ?thesis by (simp add: e1_def e2_def)
qed

section \<open>Who can read what\<close>


lemma set_insert_desc: "set (insert_desc k x xs) = insert x (set xs)"
  by (induction xs) auto

lemma set_order_desc: "set (order_desc k xs) = set xs"
  by (induction xs) (simp_all add: order_desc_def set_insert_desc)

lemma getApprovedEntries_approved:
  assumes "x \<in> set (getApprovedEntries s)"
  shows "e_status (fst x) = ''approved'' \<and> fst x \<in> set (wikiEntries s)"
  using assms by (auto simp: getApprovedEntries_def set_order_desc)

lemma getSpecialPost_special:
  assumes "getSpecialPost s i token = Some e" and "e_isSpecial e"
  shows "\<exists>k. token = QString k \<and> k \<noteq> [] \<and> e_specialAccessToken e = Some k"
  using assms
  by (cases token) (auto simp: getSpecialPost_def split: option.splits if_splits)

text \<open>
  C2 as stated fails: \<open>GET /api/entries/:id\<close> hands any authenticated caller any entry.
  Here dave, who is neither the owner nor an admin and sends no token, reads alice's pending
  entry, and her special entry together with its token; the public listing, open to
  everyone, carries the special entry as well.
\<close>

theorem read_paths_counterexample:
  "getUser wiki_store ''dave'' = Some dave \<and> \<not> u_isAdmin dave \<and> u_role dave = ''user''
   \<and> e_userId e2 = ''alice'' \<and> e_status e2 = ''pending''
   \<and> get_entries_id ''dave'' ''e2'' wiki_store = (wiki_store, Response 200 (Entry e2))
   \<and> e_userId e3 = ''alice'' \<and> e_isSpecial e3 \<and> e_specialAccessToken e3 = Some ''c0ffee''
   \<and> get_entries_id ''dave'' ''e3'' wiki_store = (wiki_store, Response 200 (Entry e3))
   \<and> get_entries_approved wiki_store =
         (wiki_store, Response 200 (Entries [(e3, alice), (e1, alice)]))"
  by (simp add: get_entries_id_def getEntry_def getUser_def get_entries_approved_def
        getApprovedEntries_def order_desc_def wiki_defs)

text \<open>
  C2 as amended. The public listing returns only entries whose status is \<open>approved\<close> (and
  only rows of the table). The token-gated route returns an entry that is special only to a
  caller whose token is a non-empty string equal to the stored one. The per-id route for
  authenticated callers has no status filter: an entry that exists and is not special is
  returned whatever its status.
\<close>

theorem read_paths:
  "(\<forall>x \<in> set (getApprovedEntries s). e_status (fst x) = ''approved'' \<and> fst x \<in> set (wikiEntries s))
   \<and> (get_special i token s = (s', Response 200 (Entry e)) \<and> e_isSpecial e \<longrightarrow>
        (\<exists>k. token = QString k \<and> k \<noteq> [] \<and> e_specialAccessToken e = Some k))
   \<and> (getEntry s i = Some e \<and> \<not> e_isSpecial e \<longrightarrow>
        get_entries_id userId i s = (s, Response 200 (Entry e)))"
proof (intro conjI ballI impI)
  fix x assume "x \<in> set (getApprovedEntries s)"
  then show "e_status (fst x) = ''approved''" "fst x \<in> set (wikiEntries s)"
    using getApprovedEntries_approved by blast+
next
  assume h: "get_special i token s = (s', Response 200 (Entry e)) \<and> e_isSpecial e"
  then have "getSpecialPost s i token = Some e"
    by (auto simp: get_special_def split: option.splits)
  with h show "\<exists>k. token = QString k \<and> k \<noteq> [] \<and> e_specialAccessToken e = Some k"
    using getSpecialPost_special by blast
next
  assume "getEntry s i = Some e \<and> \<not> e_isSpecial e"
  then show "get_entries_id userId i s = (s, Response 200 (Entry e))"
    by (simp add: get_entries_id_def)
qed

theorem read_paths_witness:
  "(e3, alice) \<in> set (getApprovedEntries wiki_store) \<and> e_status e3 = ''approved''
   \<and> get_special ''e3'' (QString ''c0ffee'') wiki_store = (wiki_store, Response 200 (Entry e3))
   \<and> e_isSpecial e3 \<and> e_specialAccessToken e3 = Some ''c0ffee''
   \<and> getEntry wiki_store ''e2'' = Some e2 \<and> \<not> e_isSpecial e2
   \<and> get_entries_id ''dave'' ''e2'' wiki_store = (wiki_store, Response 200 (Entry e2))"
proof -
  note rp = read_paths[of wiki_store "''e3''" "QString ''c0ffee''" wiki_store e3]
  have l: "(e3, alice) \<in> set (getApprovedEntries wiki_store)"
    by (simp add: getApprovedEntries_def order_desc_def wiki_defs)
  with rp have a: "e_status e3 = ''approved''" by fastforce
  have g: "get_special ''e3'' (QString ''c0ffee'') wiki_store = (wiki_store, Response 200 (Entry e3))"
      and sp: "e_isSpecial e3"
    by (simp_all add: get_special_def getSpecialPost_def getEntry_def wiki_defs)
  with rp have t: "e_specialAccessToken e3 = Some ''c0ffee''" by auto
  have e: "getEntry wiki_store ''e2'' = Some e2" "\<not> e_isSpecial e2"
    by (simp_all add: getEntry_def wiki_defs)
  with read_paths[of wiki_store "''e2''" QAbsent wiki_store e2 "''dave''"]
  have d: "get_entries_id ''dave'' ''e2'' wiki_store = (wiki_store, Response 200 (Entry e2))"
    by simp
  from l a g sp t e d show ?thesis by simp
qed

section \<open>Issuing the token of a special post\<close>

lemma length_toString_hex: "length (toString_hex bs) = 2 * length bs"
  by (induction bs) (simp_all add: toString_hex_def)

lemma hex_digit_mem: "n < 16 \<Longrightarrow> hex_digit n \<in> set ''0123456789abcdef''"
  unfolding hex_digit_def by (rule nth_mem) simp

lemma unat_byte_div: "unat (w :: 8 word) div 16 < 16"
proof -
  have "unat w < 2 ^ LENGTH(8)" by (rule unsigned_less)
  then show ?thesis by simp
qed

lemma toString_hex_digits: "list_all (\<lambda>c. c \<in> set ''0123456789abcdef'') (toString_hex bs)"
proof (induction bs)
  case Nil
  show ?case by (simp add: toString_hex_def)
next
  case (Cons w bs)
  have "hex_digit (unat w div 16) \<in> set ''0123456789abcdef''"
    by (rule hex_digit_mem) (rule unat_byte_div)
  moreover have "hex_digit (unat w mod 16) \<in> set ''0123456789abcdef''"
    by (rule hex_digit_mem) simp
  ultimately show ?case using Cons by (simp add: toString_hex_def)
qed

lemma hex_digit_inj:
  assumes "a < 16" and "b < 16" and "hex_digit a = hex_digit b"
  shows "a = b"
proof -
  have d: "distinct ''0123456789abcdef''" by simp
  have l: "length ''0123456789abcdef'' = 16" by simp
  from assms show ?thesis
    unfolding hex_digit_def using nth_eq_iff_index_eq[OF d, of a b] l by simp
qed

lemma byte_eqI:
  fixes v w :: "8 word"
  assumes "unat v div 16 = unat w div 16" and "unat v mod 16 = unat w mod 16"
  shows "v = w"
proof -
  have "unat v = 16 * (unat v div 16) + unat v mod 16" by simp
  also have "\<dots> = 16 * (unat w div 16) + unat w mod 16" using assms by simp
  also have "\<dots> = unat w" by simp
  finally show ?thesis by (simp add: word_unat_eq_iff)
qed

lemma toString_hex_inj: "toString_hex a = toString_hex b \<Longrightarrow> a = b"
proof (induction a arbitrary: b)
  case Nil
  then show ?case by (cases b) (simp_all add: toString_hex_def)
next
  case (Cons v a)
  then obtain w b' where b: "b = w # b'" by (cases b) (simp_all add: toString_hex_def)
  from Cons.prems b have h: "hex_digit (unat v div 16) = hex_digit (unat w div 16)"
      "hex_digit (unat v mod 16) = hex_digit (unat w mod 16)"
      "toString_hex a = toString_hex b'"
    by (simp_all add: toString_hex_def)
  have "unat v div 16 = unat w div 16"
    using h(1) by (intro hex_digit_inj unat_byte_div)
  moreover have "unat v mod 16 = unat w mod 16"
    using h(2) by (intro hex_digit_inj) simp_all
  ultimately have "v = w" by (rule byte_eqI)
  with Cons.IH[OF h(3)] b show ?case by simp
qed

lemma length_randomBytes: "length (randomBytes src n) = n"
  by (simp add: randomBytes_def)

lemma randomBytes_eq: "randomBytes src n = randomBytes src' n \<longleftrightarrow> (\<forall>k<n. src k = src' k)"
  by (auto simp: randomBytes_def)

lemma updateEntry_special:
  assumes "getEntry s i = Some e"
  shows "updateEntry now i
           \<lparr>ue_title = None, ue_description = None, ue_imageUrl = Missing,
            ue_verification = Missing, ue_isSpecial = Has f, ue_specialAccessToken = Has k\<rparr> s
         = (let g = (\<lambda>x. x\<lparr>e_isSpecial := f, e_specialAccessToken := Some k, e_updatedAt := Some now\<rparr>)
            in Some (s\<lparr>wikiEntries := map (\<lambda>x. if e_id x = i then g x else x) (wikiEntries s)\<rparr>,
                     Some (g e)))"
proof -
  let ?d = "\<lparr>ue_title = None, ue_description = None, ue_imageUrl = Missing,
            ue_verification = Missing, ue_isSpecial = Has f, ue_specialAccessToken = Has k\<rparr>"
  let ?g = "\<lambda>x. x\<lparr>e_isSpecial := f, e_specialAccessToken := Some k, e_updatedAt := Some now\<rparr>"
  have c: "coerce_update ?d = Some ?d" by (simp add: coerce_update_def)
  have "update_where (\<lambda>x. e_id x = i) (set_entry ?d now) (wikiEntries s)
        = Some (map (\<lambda>x. if e_id x = i then ?g x else x) (wikiEntries s))"
    by (rule update_where_map) (simp add: set_entry_def)
  moreover have "find (\<lambda>x. e_id x = i) (map (\<lambda>x. if e_id x = i then ?g x else x) (wikiEntries s))
        = Some (?g e)"
    using assms unfolding getEntry_def by (intro find_map_upd) simp_all
  ultimately show ?thesis by (simp add: updateEntry_def c Let_def)
qed

text \<open>The generator of the examples gives the bytes 0 to 31.\<close>

lemma toString_hex_drawn:
  "toString_hex (randomBytes drawn 32) =
     ''000102030405060708090a0b0c0d0e0f101112131415161718191a1b1c1d1e1f''"
  by code_simp

text \<open>
  The dedicated route does what the token is for. When the owner sends \<open>isSpecial: true\<close> to
  \<open>PATCH /api/entries/:id/special\<close>, the stored entry is special with the token
  \<open>randomBytes(32).toString('hex')\<close>: 64 hexadecimal digits that determine all 32 bytes
  (256 bits) drawn. Afterwards the special route returns the entry for exactly this token and
  answers 404 for every other token and for none.
\<close>

lemma special_route_issues_token:
  assumes ex: "getEntry s i = Some e" and own: "e_userId e = userId"
    and req: "field b ''isSpecial'' = Some (JBool True)"
  shows "\<exists>s' e'. patch_entries_id_special p src now userId i b s = (s', Response 200 (Entry e'))
          \<and> getEntry s' i = Some e' \<and> e_isSpecial e'
          \<and> e_specialAccessToken e' = Some (toString_hex (randomBytes src 32))
          \<and> length (toString_hex (randomBytes src 32)) = 64
          \<and> list_all (\<lambda>c. c \<in> set ''0123456789abcdef'') (toString_hex (randomBytes src 32))
          \<and> (\<forall>src'. toString_hex (randomBytes src' 32) = toString_hex (randomBytes src 32)
                  \<longrightarrow> (\<forall>k<32. src' k = src k))
          \<and> get_special i (QString (toString_hex (randomBytes src 32))) s'
                = (s', Response 200 (Entry e'))
          \<and> (\<forall>token. token \<noteq> QString (toString_hex (randomBytes src 32)) \<longrightarrow>
                get_special i token s' = (s', Response 404 (Message ''Entry not found or access denied'')))"
proof -
  let ?k = "toString_hex (randomBytes src 32)"
  let ?g = "\<lambda>x. x\<lparr>e_isSpecial := True, e_specialAccessToken := Some ?k, e_updatedAt := Some now\<rparr>"
  let ?s' = "s\<lparr>wikiEntries := map (\<lambda>x. if e_id x = i then ?g x else x) (wikiEntries s)\<rparr>"
  have l64: "length ?k = 64" by (simp add: length_toString_hex length_randomBytes)
  then have ne: "?k \<noteq> []" by auto
  have inj: "\<forall>k<32. src' k = src k" if "toString_hex (randomBytes src' 32) = ?k" for src'
    using toString_hex_inj[OF that] by (simp add: randomBytes_eq)
  have run: "patch_entries_id_special p src now userId i b s = (?s', Response 200 (Entry (?g e)))"
    using ex own req by (simp add: patch_entries_id_special_def updateEntry_special Let_def)
  have get: "getEntry ?s' i = Some (?g e)"
    using ex unfolding getEntry_def by (simp add: find_map_upd)
  have ok: "get_special i (QString ?k) ?s' = (?s', Response 200 (Entry (?g e)))"
    using get ne by (simp add: get_special_def getSpecialPost_def)
  have bad: "get_special i token ?s' = (?s', Response 404 (Message ''Entry not found or access denied''))"
    if "token \<noteq> QString ?k" for token
    using get that by (cases token) (auto simp: get_special_def getSpecialPost_def)
  have sp: "e_isSpecial (?g e)" "e_specialAccessToken (?g e) = Some ?k"
    by simp_all
  show ?thesis
    apply (rule exI[of _ ?s'])
    apply (rule exI[of _ "?g e"])
    apply (intro conjI allI impI)
            apply (rule run)
           apply (rule get)
          apply (rule sp(1))
         apply (rule sp(2))
        apply (rule l64)
       apply (rule toString_hex_digits)
      apply (erule inj[rule_format], assumption)
     apply (rule ok)
    apply (erule bad)
    done
qed

text \<open>
  C4 does not hold of the code. \<open>updateWikiEntrySchema\<close> keeps the key \<open>isSpecial\<close>, so the
  owner also turns an entry special through \<open>PATCH /api/entries/:id\<close>. That handler draws no
  token: the entry is stored as special with no \<open>specialAccessToken\<close>, and the special route
  then answers 404 to every token and to none.
\<close>

theorem general_edit_special_without_token:
  "\<exists>s' r e. patch_entries_id p 100 101 ''alice'' ''e1'' [(''isSpecial'', JBool True)] wiki_store
              = (s', Response 200 r)
     \<and> e_userId e1 = ''alice'' \<and> \<not> e_isSpecial e1
     \<and> getEntry s' ''e1'' = Some e \<and> e_isSpecial e \<and> e_specialAccessToken e = None
     \<and> (\<forall>token. get_special ''e1'' token s'
            = (s', Response 404 (Message ''Entry not found or access denied'')))"
proof -
  let ?e = "e1\<lparr>e_status := ''pending'', e_isSpecial := True, e_updatedAt := Some 101\<rparr>"
  let ?s' = "wiki_store\<lparr>wikiEntries := [?e, e2, e3]\<rparr>"
  have run: "patch_entries_id p 100 101 ''alice'' ''e1'' [(''isSpecial'', JBool True)] wiki_store
              = (?s', Response 200 (Entry (e1\<lparr>e_isSpecial := True, e_updatedAt := Some 100\<rparr>)))"
    by (simp add: patch_entries_id_def updateWikiEntrySchema_def update_keys_def field_def
          nullish_def updateEntry_def coerce_update_def moderateEntry_def set_entry_def
          getEntry_def pg_varchar_def Let_def wiki_defs)
  have get: "getEntry ?s' ''e1'' = Some ?e"
    by (simp add: getEntry_def wiki_defs)
  have sp: "e_isSpecial ?e" "e_specialAccessToken ?e = None"
    by (simp_all add: e1_def)
  have no: "get_special ''e1'' token ?s'
              = (?s', Response 404 (Message ''Entry not found or access denied''))" for token
    using get sp by (cases token) (simp_all add: get_special_def getSpecialPost_def)
  have own: "e_userId e1 = ''alice''" "\<not> e_isSpecial e1" by (simp_all add: e1_def)
  show ?thesis
    apply (rule exI[of _ ?s'])
    apply (rule exI[of _ "Entry (e1\<lparr>e_isSpecial := True, e_updatedAt := Some 100\<rparr>)"])
    apply (rule exI[of _ ?e])
    apply (intro conjI allI)
    apply (rule run, rule own(1), rule own(2), rule get, rule sp(1), rule sp(2), rule no)
    done
qed

section \<open>One like per user and entry\<close>


lemma userLikesEntry_iff:
  "userLikesEntry s e u \<longleftrightarrow> (e, u) \<in> set (map (\<lambda>l. (l_entryId l, l_userId l)) (likes s))"
  by (auto simp: userLikesEntry_def find_None_iff)

lemma createLike_result:
  assumes "createLike p newId now (e, u) s = Some (s', row)"
  shows "s' = s\<lparr>likes := likes s @ [row]\<rparr> \<and> l_entryId row = e \<and> l_userId row = u"
  using assms by (auto simp: createLike_def Let_def split: if_splits)

text \<open>Where the database has the constraint, no insert breaks it, whatever ran before.\<close>

lemma createLike_constrained:
  assumes "likesUnique p" and "likes_unique s" and "createLike p newId now d s = Some (s', row)"
  shows "likes_unique s'"
proof -
  obtain e u where d: "d = (e, u)" by (cases d)
  from assms(1,3) d have "\<not> userLikesEntry s e u"
    by (auto simp: createLike_def split: if_splits)
  with createLike_result[OF assms(3)[unfolded d]] assms(2) show ?thesis
    by (auto simp: likes_unique_def userLikesEntry_iff)
qed

text \<open>The other writes to \<open>likes\<close> only delete rows.\<close>

lemma deletes_keep_likes_unique:
  assumes "likes_unique s"
  shows "likes_unique (removeLike entryId userId s)" and "likes_unique (deleteEntry i s)"
    and "likes_unique (deleteEntryAdmin i s)" and "likes_unique (deleteUser userId s)"
  using assms
  by (simp_all add: removeLike_def deleteEntry_def deleteEntryAdmin_def deleteUser_def
        likes_unique_def distinct_map_filter)

lemma post_likes_check_Proceed:
  assumes "post_likes_check p userId b s = Proceed d"
  shows "\<exists>e. field b ''entryId'' = Some (JStr e) \<and> e \<noteq> [] \<and> d = (e, userId) \<and>
             \<not> userLikesEntry s e userId"
proof -
  from assms obtain v where v: "field b ''entryId'' = Some v" "truthy (Some v)"
    by (auto simp: post_likes_check_def split: option.splits if_splits)
  from assms v have "insertLikeSchema p [(''entryId'', v), (''userId'', JStr userId)] = Some d"
    by (auto simp: post_likes_check_def split: option.splits if_splits)
  then obtain e where e: "v = JStr e" "d = (e, userId)"
    by (cases v) (auto simp: insertLikeSchema_def field_def)
  from assms v e have "\<not> userLikesEntry s e userId"
    by (auto simp: post_likes_check_def entryId_param_def split: option.splits if_splits)
  with v e show ?thesis by simp
qed

lemma post_likes_check_Respond:
  assumes "post_likes_check p userId b s = Respond (Response c pl)"
  shows "c = 400 \<or> c = 500"
  using assms by (auto simp: post_likes_check_def split: option.splits if_splits)

text \<open>Served with nothing in between, the second of two equal requests is refused.\<close>

lemma post_likes_twice:
  assumes "post_likes p n1 t1 userId b s = (s1, Response 201 pl)"
  shows "post_likes p n2 t2 userId b s1 = (s1, Response 400 (Message ''Already liked this entry''))"
proof -
  from assms obtain d where c: "post_likes_check p userId b s = Proceed d"
    and ins: "post_likes_insert p n1 t1 d s = (s1, Response 201 pl)"
    by (auto simp: post_likes_def split: like_step.splits dest: post_likes_check_Respond)
  from post_likes_check_Proceed[OF c] obtain e where
    e: "field b ''entryId'' = Some (JStr e)" "e \<noteq> []" "d = (e, userId)" by blast
  from ins e obtain row where "createLike p n1 t1 (e, userId) s = Some (s1, row)"
    by (auto simp: post_likes_insert_def split: option.splits)
  from createLike_result[OF this] have "userLikesEntry s1 e userId"
    by (auto simp: userLikesEntry_iff)
  with e show ?thesis by (simp add: post_likes_def post_likes_check_def entryId_param_def)
qed

text \<open>With the constraint in the database, the second of two overlapping requests fails at
  its insert and one row is stored.\<close>

lemma overlapping_likes_constrained:
  "\<exists>s' r1.
     post_likes_overlapping (p\<lparr>likesUnique := True\<rparr>)
        ''l1'' 400 ''dave'' [(''entryId'', JStr ''e1'')]
        ''l2'' 401 ''dave'' [(''entryId'', JStr ''e1'')] wiki_store
       = (s', Response 201 (LikeRow r1), Response 500 (Message ''Failed to create like''))
     \<and> map (\<lambda>l. (l_entryId l, l_userId l)) (likes s') = [(''e1'', ''dave'')]"
  by (simp add: post_likes_overlapping_def post_likes_check_def post_likes_insert_def
        entryId_param_def insertLikeSchema_def field_def createLike_def userLikesEntry_def
        getEntry_def getUser_def Let_def wiki_defs)

text \<open>
  C9 does not hold of the code. The handler looks the pair up and inserts in two separate
  awaits, with no transaction. When two requests of one user for one entry overlap, both
  lookups find nothing; where the \<open>UNIQUE\<close> fragment of the table declaration has not become
  a constraint of the database, both inserts succeed: both requests are answered 201 and the
  table holds two rows for the pair.
\<close>

theorem overlapping_likes_duplicate:
  "\<exists>s' r1 r2.
     post_likes_overlapping (p\<lparr>likesUnique := False\<rparr>)
        ''l1'' 400 ''dave'' [(''entryId'', JStr ''e1'')]
        ''l2'' 401 ''dave'' [(''entryId'', JStr ''e1'')] wiki_store
       = (s', Response 201 (LikeRow r1), Response 201 (LikeRow r2))
     \<and> likes_unique wiki_store
     \<and> map (\<lambda>l. (l_entryId l, l_userId l)) (likes s') = [(''e1'', ''dave''), (''e1'', ''dave'')]
     \<and> \<not> likes_unique s'"
  by (simp add: post_likes_overlapping_def post_likes_check_def post_likes_insert_def
        entryId_param_def insertLikeSchema_def field_def createLike_def userLikesEntry_def
        getEntry_def getUser_def likes_unique_def Let_def wiki_defs)

end
